theory Spec2Isabelle
  imports Main
begin

section \<open>The user store (database.py)\<close>

subsection \<open>Data model\<close>

text \<open>
  A row of the table \<^verbatim>\<open>users(id INTEGER PRIMARY KEY AUTOINCREMENT, username TEXT UNIQUE,
  email TEXT UNIQUE, password TEXT)\<close>. Every value the program binds to a column is a
  Python \<^verbatim>\<open>str\<close>, so no column is ever NULL; TEXT columns compare byte for byte.
\<close>

record user =
  uid :: int
  username :: string
  email :: string
  password :: string

text \<open>
  The database file. \<open>None\<close> is a file in which \<^verbatim>\<open>init_db\<close> has not yet created the
  table; \<open>Some rs\<close> holds the rows in rowid order. The table
  \<^verbatim>\<open>password_reset_tokens\<close> is created by the same call and is read or written by no
  operation modelled here, so it is not carried along.
\<close>

type_synonym database = "user list option"

text \<open>
  \<^verbatim>\<open>passlib.hash.bcrypt\<close> is a library outside the repository: it is a parameter of
  every operation that hashes or verifies. \<open>bcrypt_hash salt secret\<close> is
  \<^verbatim>\<open>bcrypt.hash(secret)\<close> when the library draws \<open>salt\<close>, and
  \<open>bcrypt_verify secret h\<close> is \<^verbatim>\<open>bcrypt.verify(secret, h)\<close>. Both calls can raise:
  \<open>Inl\<close> is the exception, \<open>Inr\<close> the value returned. \<open>InvalidHashError\<close> is the
  exception for a string that is no bcrypt hash, which no operation stores.
\<close>

datatype passlib_error = PasswordSizeError | PasswordValueError | InvalidHashError

record bcrypt =
  bcrypt_hash :: "string \<Rightarrow> string \<Rightarrow> passlib_error + string"
  bcrypt_verify :: "string \<Rightarrow> string \<Rightarrow> passlib_error + bool"

text \<open>
  The secrets passlib's bcrypt takes: at most 4096 characters (the library's
  \<^verbatim>\<open>MAX_PASSWORD_SIZE\<close>, checked first, \<^verbatim>\<open>PasswordSizeError\<close>) and no NUL byte
  (\<^verbatim>\<open>PasswordValueError\<close>).
\<close>

definition acceptable :: "string \<Rightarrow> bool" where
  "acceptable secret = (length secret \<le> 4096 \<and> CHR 0x00 \<notin> set secret)"

definition secret_error :: "string \<Rightarrow> passlib_error" where
  "secret_error secret =
     (if length secret > 4096 then PasswordSizeError else PasswordValueError)"

text \<open>
  What the development uses of the library's behaviour, as a predicate on the parameter.
  Hashing raises on a secret that is not acceptable and returns a hash otherwise.
  Verifying against a hash made of \<open>q\<close> raises on a secret that is not acceptable and
  otherwise compares the first 72 bytes of the two secrets, the part of a secret that
  bcrypt reads (the library cuts a longer secret silently unless \<^verbatim>\<open>truncate_error\<close> is
  set, and the program calls \<^verbatim>\<open>bcrypt.hash\<close> and \<^verbatim>\<open>bcrypt.verify\<close> with their
  defaults). Collisions of the digest are left out: two secrets that differ within their
  first 72 bytes are told apart.
\<close>

definition passlib_bcrypt :: "bcrypt \<Rightarrow> bool" where
  "passlib_bcrypt B =
     ((\<forall>salt secret. \<not> acceptable secret \<longrightarrow>
          bcrypt_hash B salt secret = Inl (secret_error secret)) \<and>
      (\<forall>salt secret. acceptable secret \<longrightarrow> (\<exists>h. bcrypt_hash B salt secret = Inr h)) \<and>
      (\<forall>salt q h p. bcrypt_hash B salt q = Inr h \<longrightarrow>
          bcrypt_verify B p h =
            (if acceptable p then Inr (take 72 p = take 72 q) else Inl (secret_error p))))"

datatype sqlite_error = IntegrityError

text \<open>The values of the dictionaries the lookups return.\<close>

datatype pyval = PyInt int | PyStr string

type_synonym pydict = "(string \<times> pyval) list"

subsection \<open>Operations\<close>

text \<open>\<^verbatim>\<open>CREATE TABLE IF NOT EXISTS users\<close>, committed.\<close>

definition init_db :: "database \<Rightarrow> database" where
  "init_db db = (case db of None \<Rightarrow> Some [] | Some rs \<Rightarrow> Some rs)"

definition rows :: "database \<Rightarrow> user list" where
  "rows db = (case db of None \<Rightarrow> [] | Some rs \<Rightarrow> rs)"

text \<open>
  The rowid an AUTOINCREMENT column gives to the next row: one more than the largest
  rowid ever used. No statement of the program deletes a row or sets an id, so the
  largest rowid ever used is the largest one present.
\<close>

definition next_rowid :: "user list \<Rightarrow> int" where
  "next_rowid rs = foldr max (map uid rs) 0 + 1"

text \<open>
  \<^verbatim>\<open>INSERT INTO users (username, email, password) VALUES (?, ?, ?)\<close>: the UNIQUE
  constraints on username and on email raise \<^verbatim>\<open>sqlite3.IntegrityError\<close> and the
  statement changes nothing.
\<close>

definition insert_user :: "user list \<Rightarrow> string \<Rightarrow> string \<Rightarrow> string \<Rightarrow> sqlite_error + user list" where
  "insert_user rs usern mail hashed_password =
     (if usern \<in> set (map username rs) \<or> mail \<in> set (map email rs)
      then Inl IntegrityError
      else Inr (rs @ [\<lparr>uid = next_rowid rs, username = usern, email = mail,
                        password = hashed_password\<rparr>]))"

text \<open>
  \<^verbatim>\<open>create_user\<close>: the insert is committed on success and IntegrityError is caught.
  The password is hashed inside the \<^verbatim>\<open>try\<close>, which catches nothing else: an exception
  of \<^verbatim>\<open>bcrypt.hash\<close> leaves the function, after \<^verbatim>\<open>init_db\<close> has run and before any
  insert.
\<close>

definition create_user ::
  "bcrypt \<Rightarrow> string \<Rightarrow> database \<Rightarrow> string \<Rightarrow> string \<Rightarrow> string
     \<Rightarrow> (passlib_error + bool) \<times> database" where
  "create_user B salt db usern mail pw =
     (let rs = rows (init_db db)
      in case bcrypt_hash B salt pw of
           Inl e \<Rightarrow> (Inl e, Some rs)
         | Inr hashed_password \<Rightarrow>
             (case insert_user rs usern mail hashed_password of
                Inr rs' \<Rightarrow> (Inr True, Some rs')
              | Inl IntegrityError \<Rightarrow> (Inr False, Some rs)))"

text \<open>
  \<^verbatim>\<open>SELECT ... WHERE col = ?\<close> followed by \<^verbatim>\<open>fetchone()\<close>: the first matching row,
  or \<open>None\<close>. In \<^verbatim>\<open>verify_user\<close> the test \<^verbatim>\<open>row and bcrypt.verify(password, row[0])\<close>
  calls the library only when a row was found, and nothing catches what the call raises.
\<close>

definition verify_user ::
  "bcrypt \<Rightarrow> database \<Rightarrow> string \<Rightarrow> string \<Rightarrow> (passlib_error + bool) \<times> database" where
  "verify_user B db usern pw =
     (let rs = rows (init_db db);
          row = find (\<lambda>r. username r = usern) rs
      in (case row of
            None \<Rightarrow> Inr False
          | Some r \<Rightarrow> bcrypt_verify B pw (password r),
          Some rs))"

definition user_dict :: "user \<Rightarrow> pydict" where
  "user_dict r = [(''id'', PyInt (uid r)), (''username'', PyStr (username r)),
                  (''email'', PyStr (email r))]"

definition get_user_by_email :: "database \<Rightarrow> string \<Rightarrow> pydict option \<times> database" where
  "get_user_by_email db mail =
     (let rs = rows (init_db db);
          row = find (\<lambda>r. email r = mail) rs
      in (case row of None \<Rightarrow> None | Some r \<Rightarrow> Some (user_dict r), Some rs))"

definition get_user_by_username :: "database \<Rightarrow> string \<Rightarrow> pydict option \<times> database" where
  "get_user_by_username db usern =
     (let rs = rows (init_db db);
          row = find (\<lambda>r. username r = usern) rs
      in (case row of None \<Rightarrow> None | Some r \<Rightarrow> Some (user_dict r), Some rs))"

text \<open>
  \<^verbatim>\<open>update_user_password\<close>: the new password is hashed before the statement runs, with
  no \<^verbatim>\<open>try\<close> around it. \<^verbatim>\<open>UPDATE users SET password = ? WHERE email = ?\<close> rewrites
  every row with that email, and \<^verbatim>\<open>cursor.rowcount\<close> counts them.
\<close>

definition update_user_password ::
  "bcrypt \<Rightarrow> string \<Rightarrow> database \<Rightarrow> string \<Rightarrow> string
     \<Rightarrow> (passlib_error + bool) \<times> database" where
  "update_user_password B salt db mail new_password =
     (let rs = rows (init_db db)
      in case bcrypt_hash B salt new_password of
           Inl e \<Rightarrow> (Inl e, Some rs)
         | Inr hashed_password \<Rightarrow>
             (let rs' = map (\<lambda>r. if email r = mail then r\<lparr>password := hashed_password\<rparr>
                                  else r) rs;
                  rowcount = length (filter (\<lambda>r. email r = mail) rs);
                  success = (rowcount > 0)
              in (Inr success, Some rs')))"

text \<open>The UNIQUE constraints of the table, as a predicate on its rows.\<close>

definition unique_users :: "user list \<Rightarrow> bool" where
  "unique_users rs = (distinct (map username rs) \<and> distinct (map email rs))"

section \<open>The HTTP layer (main.py)\<close>

subsection \<open>Responses\<close>

text \<open>
  What a handler returns: a rendered template with its context (the request left out), a
  redirect, a JSON body or a file, each with its status code. \<open>ServerError\<close> is the
  reply to an exception no handler catches.
\<close>

datatype response =
    TemplateResponse string "(string \<times> string) list" nat
  | RedirectResponse string nat
  | JSONResponse "(string \<times> string) list" nat
  | FileResponse string string nat
  | ServerError

fun status_code :: "response \<Rightarrow> nat" where
  "status_code (TemplateResponse _ _ c) = c"
| "status_code (RedirectResponse _ c) = c"
| "status_code (JSONResponse _ c) = c"
| "status_code (FileResponse _ _ c) = c"
| "status_code ServerError = 500"

text \<open>A field of a template context or of a JSON body.\<close>

fun field :: "response \<Rightarrow> string \<Rightarrow> string option" where
  "field (TemplateResponse _ ctx _) k = map_of ctx k"
| "field (JSONResponse body _) k = map_of body k"
| "field _ k = None"

subsection \<open>Direct password reset\<close>

text \<open>
  The calls a handler makes into the user store, in order. The log is not part of the
  program; it records which store operations a request reaches.
\<close>

datatype store_call =
    GetUserByEmail string
  | GetUserByUsername string
  | UpdateUserPassword string string

text \<open>Python's truth value of what a lookup returned: \<open>None\<close> and the empty dict are false.\<close>

fun truthy :: "pydict option \<Rightarrow> bool" where
  "truthy None = False"
| "truthy (Some d) = (d \<noteq> [])"

text \<open>\<^verbatim>\<open>user[k]\<close>; \<open>None\<close> when the subscript raises.\<close>

fun subscript :: "pydict option \<Rightarrow> string \<Rightarrow> pyval option" where
  "subscript None k = None"
| "subscript (Some d) k = map_of d k"

text \<open>
  \<^verbatim>\<open>POST /reset_password_direct\<close>. The handler catches no exception: one raised by
  \<^verbatim>\<open>update_user_password\<close>, or by the subscript \<^verbatim>\<open>user["email"]\<close>, ends the request
  with \<open>ServerError\<close>.
\<close>

definition reset_password_direct ::
  "bcrypt \<Rightarrow> string \<Rightarrow> database \<Rightarrow> string \<Rightarrow> string \<Rightarrow> string
     \<Rightarrow> response \<times> database \<times> store_call list" where
  "reset_password_direct B salt db username_or_email new_password confirm_new_password =
     (if new_password \<noteq> confirm_new_password
      then (TemplateResponse ''forgot_password.html''
              [(''error'', ''Passwords do not match.'')] 200, db, [])
      else
        let (user0, db1) = get_user_by_email db username_or_email;
            calls1 = [GetUserByEmail username_or_email];
            (user, db2, calls2) =
              (if \<not> truthy user0
               then (let (u, d) = get_user_by_username db1 username_or_email
                     in (u, d, calls1 @ [GetUserByUsername username_or_email]))
               else (user0, db1, calls1))
        in if truthy user
           then (case subscript user ''email'' of
                   Some (PyStr mail) \<Rightarrow>
                     (let (outcome, db3) = update_user_password B salt db2 mail new_password;
                          calls3 = calls2 @ [UpdateUserPassword mail new_password]
                      in case outcome of
                           Inl e \<Rightarrow> (ServerError, db3, calls3)
                         | Inr success \<Rightarrow>
                             if success
                             then (RedirectResponse
                                     ''/login?message=password_reset_success'' 303,
                                   db3, calls3)
                             else (TemplateResponse ''forgot_password.html''
                                     [(''error'',
                                       ''Failed to reset password. Please try again.'')] 200,
                                   db3, calls3))
                 | _ \<Rightarrow> (ServerError, db2, calls2))
           else (TemplateResponse ''forgot_password.html''
                   [(''error'', ''No account found with that username or email.'')] 200,
                 db2, calls2))"

subsection \<open>Conversion to PDF\<close>

text \<open>
  The files under the working directory: a path with its contents, or \<open>None\<close>.
  \<^verbatim>\<open>os.path.exists\<close> is \<open>fs p \<noteq> None\<close>.
\<close>

type_synonym filesystem = "string \<Rightarrow> string option"

text \<open>
  How \<^verbatim>\<open>subprocess.run(..., check=True)\<close> ends: it returns (exit status 0), raises
  \<^verbatim>\<open>CalledProcessError\<close> (another exit status) or raises \<^verbatim>\<open>FileNotFoundError\<close> (no
  such binary). The converter is outside the repository: it is a parameter, a function
  from the command line and the files to its outcome and the files it leaves.
\<close>

datatype run_outcome = Completed | CalledProcessError | FileNotFoundError

type_synonym subprocess = "string list \<Rightarrow> filesystem \<Rightarrow> run_outcome \<times> filesystem"

definition UPLOAD_DIR :: string where
  "UPLOAD_DIR = ''uploads''"

text \<open>\<^verbatim>\<open>os.path.join\<close> of two components (POSIX).\<close>

definition os_path_join :: "string \<Rightarrow> string \<Rightarrow> string" where
  "os_path_join a b =
     (if b \<noteq> [] \<and> hd b = CHR ''/'' then b
      else if a = [] \<or> last a = CHR ''/'' then a @ b
      else a @ ''/'' @ b)"

text \<open>
  \<^verbatim>\<open>POST /convert\<close>. \<open>file_id\<close> is the string \<^verbatim>\<open>str(uuid.uuid4())\<close> drew for the
  request and \<open>content\<close> the bytes of the upload.
\<close>

definition input_path :: "string \<Rightarrow> string" where
  "input_path file_id = os_path_join UPLOAD_DIR (file_id @ ''.docx'')"

definition output_path :: "string \<Rightarrow> string" where
  "output_path file_id = os_path_join UPLOAD_DIR (file_id @ ''.pdf'')"

definition libreoffice_args :: "string \<Rightarrow> string list" where
  "libreoffice_args file_id =
     [''libreoffice'', ''--headless'', ''--convert-to'', ''pdf'', input_path file_id,
      ''--outdir'', UPLOAD_DIR]"

definition convert_to_pdf ::
  "subprocess \<Rightarrow> string \<Rightarrow> string \<Rightarrow> filesystem \<Rightarrow> response \<times> filesystem" where
  "convert_to_pdf subprocess_run file_id content fs =
     (let fs1 = fs(input_path file_id \<mapsto> content)
      in case subprocess_run (libreoffice_args file_id) fs1 of
           (CalledProcessError, fs2) \<Rightarrow>
             (JSONResponse [(''status'', ''failed''),
                            (''message'', ''PDF conversion failed.'')] 500, fs2)
         | (FileNotFoundError, fs2) \<Rightarrow>
             (JSONResponse [(''status'', ''failed''),
                            (''message'', ''Server error: PDF converter not found.'')] 500, fs2)
         | (Completed, fs2) \<Rightarrow>
             (if fs2 (output_path file_id) \<noteq> None
              then (JSONResponse [(''status'', ''completed''), (''file_id'', file_id)] 200, fs2)
              else (JSONResponse [(''status'', ''failed''),
                                  (''message'', ''PDF output file not found after conversion.'')]
                      500, fs2)))"

text \<open>\<^verbatim>\<open>GET /download/{file_id}\<close>.\<close>

definition download_pdf :: "string \<Rightarrow> filesystem \<Rightarrow> response" where
  "download_pdf file_id fs =
     (let pdf_path = os_path_join UPLOAD_DIR (file_id @ ''.pdf'')
      in if fs pdf_path \<noteq> None
         then FileResponse pdf_path ''converted.pdf'' 200
         else JSONResponse [(''error'', ''File not found'')] 404)"

section \<open>Concrete instances\<close>

text \<open>
  An instance of the bcrypt interface, for running the operations on concrete inputs. It
  raises where the library does and reads the first 72 bytes of an acceptable secret. The
  salt takes the 22 characters it has in a bcrypt hash string; the digest is the
  truncated secret itself, which nothing below relies on.
\<close>

definition bcrypt72 :: bcrypt where
  "bcrypt72 =
     \<lparr>bcrypt_hash = (\<lambda>salt secret.
        if acceptable secret
        then Inr (take 22 (salt @ replicate 22 CHR ''.'') @ take 72 secret)
        else Inl (secret_error secret)),
      bcrypt_verify = (\<lambda>secret h.
        if acceptable secret
        then Inr (drop 22 h = take 72 secret)
        else Inl (secret_error secret))\<rparr>"

text \<open>
  Two passwords of 73 bytes that differ in the last byte only, and a password that is a
  single NUL byte.
\<close>

definition nul_password :: string where
  "nul_password = [CHR 0x00]"



text \<open>Stores made by registrations on a new database file.\<close>

definition alice_db :: database where
  "alice_db =
     snd (create_user bcrypt72 ''saltsaltsaltsaltsalt01'' None
            ''alice'' ''alice@example.com'' ''wonderland'')"

definition two_users_db :: database where
  "two_users_db =
     snd (create_user bcrypt72 ''saltsaltsaltsaltsalt02'' alice_db
            ''bob'' ''bob@example.com'' ''builder'')"

text \<open>The rows these registrations leave.\<close>

definition alice_row :: user where
  "alice_row = \<lparr>uid = 1, username = ''alice'', email = ''alice@example.com'',
                password = ''saltsaltsaltsaltsalt01wonderland''\<rparr>"

definition bob_row :: user where
  "bob_row = \<lparr>uid = 2, username = ''bob'', email = ''bob@example.com'',
              password = ''saltsaltsaltsaltsalt02builder''\<rparr>"



section \<open>Auxiliary facts\<close>

subsection \<open>The table and its lookups\<close>

lemma rows_Some: "rows (Some rs) = rs"
  by (simp add: rows_def)

lemma rows_init_db: "rows (init_db db) = rows db"
  by (cases db) (simp_all add: init_db_def rows_def)

lemma init_db_rows: "init_db db = Some (rows db)"
  by (cases db) (simp_all add: init_db_def rows_def)

lemma init_db_idem: "init_db (init_db db) = init_db db"
  by (simp add: init_db_rows rows_Some)

lemma find_None_image: "find (\<lambda>r. f r = k) rs = None \<longleftrightarrow> k \<notin> f ` set rs"
  by (induction rs) auto

lemma find_distinct_key:
  "distinct (map f rs) \<Longrightarrow> r \<in> set rs \<Longrightarrow> find (\<lambda>x. f x = f r) rs = Some r"
  by (induction rs) (auto simp: rev_image_eqI)




lemma filter_email_empty: "(filter (\<lambda>r. email r = mail) rs = []) = (mail \<notin> email ` set rs)"
  by (auto simp: filter_empty_conv)



lemma username_update:
  "username \<circ> (\<lambda>r. if email r = mail then r\<lparr>password := h\<rparr> else r) = username"
  by (auto simp: fun_eq_iff)

lemma email_update:
  "email \<circ> (\<lambda>r. if email r = mail then r\<lparr>password := h\<rparr> else r) = email"
  by (auto simp: fun_eq_iff)

subsection \<open>The operations as equations on the rows\<close>

lemma create_user_eq:
  "create_user B salt db usern mail pw =
     (case bcrypt_hash B salt pw of
        Inl e \<Rightarrow> (Inl e, init_db db)
      | Inr h \<Rightarrow>
          if usern \<in> username ` set (rows db) \<or> mail \<in> email ` set (rows db)
          then (Inr False, init_db db)
          else (Inr True, Some (rows db @ [\<lparr>uid = next_rowid (rows db), username = usern,
                                             email = mail, password = h\<rparr>])))"
  by (simp add: create_user_def insert_user_def Let_def init_db_rows rows_Some split: sum.splits)

lemma verify_user_eq:
  "verify_user B db usern pw =
     (case find (\<lambda>r. username r = usern) (rows db) of
        None \<Rightarrow> Inr False
      | Some r \<Rightarrow> bcrypt_verify B pw (password r), init_db db)"
  by (simp add: verify_user_def Let_def init_db_rows rows_Some)

lemma get_user_by_email_eq:
  "get_user_by_email db mail =
     (map_option user_dict (find (\<lambda>r. email r = mail) (rows db)), init_db db)"
  by (simp add: get_user_by_email_def Let_def init_db_rows rows_Some split: option.splits)

lemma get_user_by_username_eq:
  "get_user_by_username db usern =
     (map_option user_dict (find (\<lambda>r. username r = usern) (rows db)), init_db db)"
  by (simp add: get_user_by_username_def Let_def init_db_rows rows_Some split: option.splits)

lemma update_user_password_eq:
  "update_user_password B salt db mail pw =
     (case bcrypt_hash B salt pw of
        Inl e \<Rightarrow> (Inl e, init_db db)
      | Inr h \<Rightarrow>
          (Inr (mail \<in> email ` set (rows db)),
           Some (map (\<lambda>r. if email r = mail then r\<lparr>password := h\<rparr> else r) (rows db))))"
  by (simp add: update_user_password_def Let_def init_db_rows rows_Some filter_email_empty
      split: sum.splits)



subsection \<open>The concrete instances\<close>

lemma acceptable_short:
  "acceptable ''wonderland''" "acceptable ''builder''" "acceptable ''looking-glass''"
  "acceptable ''rebuilt''" "acceptable ''new-secret''" "acceptable ''pw''"
  by (simp_all add: acceptable_def)


lemma nul_rejected: "\<not> acceptable nul_password" "secret_error nul_password = PasswordValueError"
  by (simp_all add: acceptable_def secret_error_def nul_password_def)

lemma bcrypt72_hash:
  "bcrypt_hash bcrypt72 salt secret =
     (if acceptable secret
      then Inr (take 22 (salt @ replicate 22 CHR ''.'') @ take 72 secret)
      else Inl (secret_error secret))"
  by (simp add: bcrypt72_def)



lemma alice_db_eq: "alice_db = Some [alice_row]"
  by (simp add: alice_db_def alice_row_def create_user_def insert_user_def Let_def init_db_def
      rows_def next_rowid_def bcrypt72_hash acceptable_short)

lemma two_users_db_eq: "two_users_db = Some [alice_row, bob_row]"
  by (simp add: two_users_db_def alice_db_eq alice_row_def bob_row_def create_user_def
      insert_user_def Let_def init_db_def rows_def next_rowid_def bcrypt72_hash acceptable_short)



lemma two_users_rows: "rows two_users_db = [alice_row, bob_row]"
  by (simp add: two_users_db_eq rows_Some)

lemma two_users_unique: "unique_users (rows two_users_db)"
  by (simp add: two_users_rows unique_users_def alice_row_def bob_row_def)


section \<open>Properties\<close>

subsection \<open>Verification of credentials\<close>




subsection \<open>Registration\<close>

text \<open>
  C2, amended. When \<^verbatim>\<open>bcrypt.hash\<close> raises, \<^verbatim>\<open>create_user\<close> raises the same exception and
  the rows of the table are unchanged. When it returns a hash, \<^verbatim>\<open>create_user\<close> returns
  false and leaves the rows as they are if a user with the same username or the same
  email exists; otherwise it appends a user whose password column is that hash and
  returns true, and a second call with the same username, or with the same email, then
  never returns true: it returns false whenever its own password is hashed. With
  passlib's bcrypt the first case is that of a password with a NUL byte or of more than
  4096 characters, and every other password is hashed.
\<close>

theorem create_user_result:
  "(bcrypt_hash B salt pw = Inl e \<longrightarrow>
      create_user B salt db usern mail pw = (Inl e, init_db db) \<and>
      rows (snd (create_user B salt db usern mail pw)) = rows db) \<and>
   (bcrypt_hash B salt pw = Inr h \<and>
    (usern \<in> username ` set (rows db) \<or> mail \<in> email ` set (rows db)) \<longrightarrow>
      create_user B salt db usern mail pw = (Inr False, init_db db) \<and>
      rows (snd (create_user B salt db usern mail pw)) = rows db) \<and>
   (bcrypt_hash B salt pw = Inr h \<and>
    usern \<notin> username ` set (rows db) \<and> mail \<notin> email ` set (rows db) \<longrightarrow>
      create_user B salt db usern mail pw =
        (Inr True, Some (rows db @ [\<lparr>uid = next_rowid (rows db), username = usern, email = mail,
                                       password = h\<rparr>])) \<and>
      fst (create_user B' salt' (snd (create_user B salt db usern mail pw)) usern mail' pw')
        \<noteq> Inr True \<and>
      fst (create_user B' salt' (snd (create_user B salt db usern mail pw)) usern' mail pw')
        \<noteq> Inr True \<and>
      (bcrypt_hash B' salt' pw' = Inr h' \<longrightarrow>
         fst (create_user B' salt' (snd (create_user B salt db usern mail pw)) usern mail' pw')
           = Inr False \<and>
         fst (create_user B' salt' (snd (create_user B salt db usern mail pw)) usern' mail pw')
           = Inr False)) \<and>
   (passlib_bcrypt B \<and> \<not> acceptable pw \<longrightarrow>
      create_user B salt db usern mail pw = (Inl (secret_error pw), init_db db)) \<and>
   (passlib_bcrypt B \<and> acceptable pw \<longrightarrow>
      fst (create_user B salt db usern mail pw)
        = Inr (usern \<notin> username ` set (rows db) \<and> mail \<notin> email ` set (rows db)))"
proof -
  have raised: "bcrypt_hash B salt pw = Inl e \<longrightarrow>
      create_user B salt db usern mail pw = (Inl e, init_db db) \<and>
      rows (snd (create_user B salt db usern mail pw)) = rows db"
    by (simp add: create_user_eq rows_init_db)
  have duplicate: "bcrypt_hash B salt pw = Inr h \<and>
    (usern \<in> username ` set (rows db) \<or> mail \<in> email ` set (rows db)) \<longrightarrow>
      create_user B salt db usern mail pw = (Inr False, init_db db) \<and>
      rows (snd (create_user B salt db usern mail pw)) = rows db"
    by (simp add: create_user_eq rows_init_db)
  have fresh: "bcrypt_hash B salt pw = Inr h \<and>
    usern \<notin> username ` set (rows db) \<and> mail \<notin> email ` set (rows db) \<longrightarrow>
      create_user B salt db usern mail pw =
        (Inr True, Some (rows db @ [\<lparr>uid = next_rowid (rows db), username = usern, email = mail,
                                       password = h\<rparr>])) \<and>
      fst (create_user B' salt' (snd (create_user B salt db usern mail pw)) usern mail' pw')
        \<noteq> Inr True \<and>
      fst (create_user B' salt' (snd (create_user B salt db usern mail pw)) usern' mail pw')
        \<noteq> Inr True \<and>
      (bcrypt_hash B' salt' pw' = Inr h' \<longrightarrow>
         fst (create_user B' salt' (snd (create_user B salt db usern mail pw)) usern mail' pw')
           = Inr False \<and>
         fst (create_user B' salt' (snd (create_user B salt db usern mail pw)) usern' mail pw')
           = Inr False)"
  proof (intro impI, elim conjE)
    assume h: "bcrypt_hash B salt pw = Inr h"
      and u: "usern \<notin> username ` set (rows db)" and m: "mail \<notin> email ` set (rows db)"
    have first: "create_user B salt db usern mail pw =
        (Inr True, Some (rows db @ [\<lparr>uid = next_rowid (rows db), username = usern, email = mail,
                                       password = h\<rparr>]))"
      using h u m by (simp add: create_user_eq)
    have again_u: "fst (create_user B' salt' (snd (create_user B salt db usern mail pw))
        usern mail' pw') =
        (case bcrypt_hash B' salt' pw' of Inl e \<Rightarrow> Inl e | Inr x \<Rightarrow> Inr False)"
      unfolding first by (simp add: create_user_eq rows_Some split: sum.splits)
    have again_m: "fst (create_user B' salt' (snd (create_user B salt db usern mail pw))
        usern' mail pw') =
        (case bcrypt_hash B' salt' pw' of Inl e \<Rightarrow> Inl e | Inr x \<Rightarrow> Inr False)"
      unfolding first by (simp add: create_user_eq rows_Some split: sum.splits)
    show "create_user B salt db usern mail pw =
        (Inr True, Some (rows db @ [\<lparr>uid = next_rowid (rows db), username = usern, email = mail,
                                       password = h\<rparr>])) \<and>
      fst (create_user B' salt' (snd (create_user B salt db usern mail pw)) usern mail' pw')
        \<noteq> Inr True \<and>
      fst (create_user B' salt' (snd (create_user B salt db usern mail pw)) usern' mail pw')
        \<noteq> Inr True \<and>
      (bcrypt_hash B' salt' pw' = Inr h' \<longrightarrow>
         fst (create_user B' salt' (snd (create_user B salt db usern mail pw)) usern mail' pw')
           = Inr False \<and>
         fst (create_user B' salt' (snd (create_user B salt db usern mail pw)) usern' mail pw')
           = Inr False)"
      unfolding again_u again_m using first by (simp split: sum.splits)
  qed
  have rejected: "passlib_bcrypt B \<and> \<not> acceptable pw \<longrightarrow>
      create_user B salt db usern mail pw = (Inl (secret_error pw), init_db db)"
  proof (intro impI, elim conjE)
    assume "passlib_bcrypt B" and "\<not> acceptable pw"
    then have "bcrypt_hash B salt pw = Inl (secret_error pw)"
      unfolding passlib_bcrypt_def by blast
    then show "create_user B salt db usern mail pw = (Inl (secret_error pw), init_db db)"
      by (simp add: create_user_eq)
  qed
  have accepted: "passlib_bcrypt B \<and> acceptable pw \<longrightarrow>
      fst (create_user B salt db usern mail pw)
        = Inr (usern \<notin> username ` set (rows db) \<and> mail \<notin> email ` set (rows db))"
  proof (intro impI, elim conjE)
    assume "passlib_bcrypt B" and "acceptable pw"
    then obtain x where "bcrypt_hash B salt pw = Inr x"
      unfolding passlib_bcrypt_def by blast
    then show "fst (create_user B salt db usern mail pw)
        = Inr (usern \<notin> username ` set (rows db) \<and> mail \<notin> email ` set (rows db))"
      by (simp add: create_user_eq)
  qed
  from raised duplicate fresh rejected accepted show ?thesis
    by (intro conjI)
qed

theorem create_user_result_witness:
  "create_user bcrypt72 ''saltsaltsaltsaltsalt02'' alice_db ''bob'' ''bob@example.com'' ''builder''
     = (Inr True, Some [alice_row, bob_row]) \<and>
   fst (create_user bcrypt72 ''saltsaltsaltsaltsalt03'' two_users_db
          ''bob'' ''robert@example.com'' ''rebuilt'') = Inr False \<and>
   fst (create_user bcrypt72 ''saltsaltsaltsaltsalt03'' two_users_db
          ''robert'' ''bob@example.com'' ''rebuilt'') = Inr False \<and>
   create_user bcrypt72 ''saltsaltsaltsaltsalt03'' alice_db
          ''alice'' ''alice2@example.com'' ''rebuilt'' = (Inr False, alice_db) \<and>
   create_user bcrypt72 ''saltsaltsaltsaltsalt03'' alice_db
          ''carol'' ''carol@example.com'' nul_password = (Inl PasswordValueError, alice_db)"
proof -
  have rows_alice: "rows alice_db = [alice_row]"
    by (simp add: alice_db_eq rows_Some)
  have same: "init_db alice_db = alice_db"
    by (simp add: alice_db_eq init_db_def)
  have hashed: "bcrypt_hash bcrypt72 ''saltsaltsaltsaltsalt02'' ''builder''
      = Inr ''saltsaltsaltsaltsalt02builder''"
    "bcrypt_hash bcrypt72 ''saltsaltsaltsaltsalt03'' ''rebuilt''
      = Inr ''saltsaltsaltsaltsalt03rebuilt''"
    by (simp_all add: bcrypt72_hash acceptable_short)
  have raises: "bcrypt_hash bcrypt72 ''saltsaltsaltsaltsalt03'' nul_password
      = Inl PasswordValueError"
    by (simp add: bcrypt72_hash nul_rejected)
  have fresh: "bcrypt_hash bcrypt72 ''saltsaltsaltsaltsalt02'' ''builder''
      = Inr ''saltsaltsaltsaltsalt02builder'' \<and>
      ''bob'' \<notin> username ` set (rows alice_db) \<and>
      ''bob@example.com'' \<notin> email ` set (rows alice_db)"
    by (simp add: hashed rows_alice alice_row_def)
  have taken: "bcrypt_hash bcrypt72 ''saltsaltsaltsaltsalt03'' ''rebuilt''
      = Inr ''saltsaltsaltsaltsalt03rebuilt'' \<and>
      (''alice'' \<in> username ` set (rows alice_db) \<or>
       ''alice2@example.com'' \<in> email ` set (rows alice_db))"
    by (simp add: hashed rows_alice alice_row_def)
  have new_row: "\<lparr>uid = next_rowid [alice_row], username = ''bob'', email = ''bob@example.com'',
      password = ''saltsaltsaltsaltsalt02builder''\<rparr> = bob_row"
    by (simp add: alice_row_def bob_row_def next_rowid_def)
  note first = create_user_result [of bcrypt72 "''saltsaltsaltsaltsalt02''" "''builder''"
      PasswordValueError alice_db "''bob''" "''bob@example.com''" "''saltsaltsaltsaltsalt02builder''"
      bcrypt72 "''saltsaltsaltsaltsalt03''" "''robert@example.com''" "''rebuilt''" "''robert''"
      "''saltsaltsaltsaltsalt03rebuilt''",
      THEN conjunct2, THEN conjunct2, THEN conjunct1, THEN mp, OF fresh]
  from first have 1: "create_user bcrypt72 ''saltsaltsaltsaltsalt02'' alice_db
      ''bob'' ''bob@example.com'' ''builder'' = (Inr True, Some [alice_row, bob_row])"
    by (simp add: new_row rows_alice)
  from first hashed(2) have 2: "fst (create_user bcrypt72 ''saltsaltsaltsaltsalt03''
      (snd (create_user bcrypt72 ''saltsaltsaltsaltsalt02'' alice_db
              ''bob'' ''bob@example.com'' ''builder''))
      ''bob'' ''robert@example.com'' ''rebuilt'') = Inr False"
    by blast
  from first hashed(2) have 3: "fst (create_user bcrypt72 ''saltsaltsaltsaltsalt03''
      (snd (create_user bcrypt72 ''saltsaltsaltsaltsalt02'' alice_db
              ''bob'' ''bob@example.com'' ''builder''))
      ''robert'' ''bob@example.com'' ''rebuilt'') = Inr False"
    by blast
  from create_user_result [of bcrypt72 "''saltsaltsaltsaltsalt03''" "''rebuilt''"
      PasswordValueError alice_db "''alice''" "''alice2@example.com''"
      "''saltsaltsaltsaltsalt03rebuilt''", THEN conjunct2, THEN conjunct1, THEN mp, OF taken] same
  have 4: "create_user bcrypt72 ''saltsaltsaltsaltsalt03'' alice_db
            ''alice'' ''alice2@example.com'' ''rebuilt'' = (Inr False, alice_db)"
    by simp
  from create_user_result [of bcrypt72 "''saltsaltsaltsaltsalt03''" nul_password
      PasswordValueError alice_db "''carol''" "''carol@example.com''", THEN conjunct1, THEN mp,
      OF raises] same
  have 5: "create_user bcrypt72 ''saltsaltsaltsaltsalt03'' alice_db
          ''carol'' ''carol@example.com'' nul_password = (Inl PasswordValueError, alice_db)"
    by simp
  from 1 2 3 4 5 show ?thesis
    unfolding two_users_db_def by (intro conjI)
qed

text \<open>
  C2 as stated promises true or false for every password. With the password of one NUL
  byte \<^verbatim>\<open>create_user\<close> raises, on a new database file and for a username and email that
  are both taken.
\<close>

theorem create_user_raises_counterexample:
  "create_user bcrypt72 ''saltsaltsaltsaltsalt01'' None ''alice'' ''alice@example.com''
     nul_password = (Inl PasswordValueError, Some []) \<and>
   create_user bcrypt72 ''saltsaltsaltsaltsalt03'' alice_db ''alice'' ''alice@example.com''
     nul_password = (Inl PasswordValueError, alice_db)"
  by (simp add: create_user_eq bcrypt72_hash nul_rejected alice_db_eq init_db_def)

subsection \<open>Password update and verification\<close>




subsection \<open>Uniqueness as an invariant\<close>

text \<open>
  C4. Uniqueness of usernames and of emails holds of the table before and after its
  creation and is preserved by \<^verbatim>\<open>create_user\<close>, \<^verbatim>\<open>verify_user\<close>,
  \<^verbatim>\<open>get_user_by_email\<close>, \<^verbatim>\<open>get_user_by_username\<close> and \<^verbatim>\<open>update_user_password\<close>,
  whether they return or raise. No operation deletes a user: \<^verbatim>\<open>create_user\<close> keeps the
  rows it found as a prefix of the table, the three lookups leave the rows as they are,
  and \<^verbatim>\<open>update_user_password\<close> keeps the id, the username and the email of every row,
  in order.
\<close>

theorem unique_users_invariant:
  "unique_users (rows None) \<and> unique_users (rows (init_db None)) \<and>
   (unique_users (rows db) \<longrightarrow>
      unique_users (rows (snd (create_user B salt db usern mail pw))) \<and>
      unique_users (rows (snd (verify_user B db usern pw))) \<and>
      unique_users (rows (snd (get_user_by_email db mail))) \<and>
      unique_users (rows (snd (get_user_by_username db usern))) \<and>
      unique_users (rows (snd (update_user_password B salt db mail pw)))) \<and>
   take (length (rows db)) (rows (snd (create_user B salt db usern mail pw))) = rows db \<and>
   rows (snd (verify_user B db usern pw)) = rows db \<and>
   rows (snd (get_user_by_email db mail)) = rows db \<and>
   rows (snd (get_user_by_username db usern)) = rows db \<and>
   map (\<lambda>r. (uid r, username r, email r)) (rows (snd (update_user_password B salt db mail pw)))
     = map (\<lambda>r. (uid r, username r, email r)) (rows db)"
proof -
  have init: "unique_users (rows None) \<and> unique_users (rows (init_db None))"
    by (simp add: unique_users_def rows_def init_db_def)
  have create: "unique_users (rows db) \<longrightarrow>
      unique_users (rows (snd (create_user B salt db usern mail pw)))"
    by (cases "bcrypt_hash B salt pw")
      (auto simp: create_user_eq rows_init_db rows_Some unique_users_def)
  have reads: "rows (snd (verify_user B db usern pw)) = rows db"
    "rows (snd (get_user_by_email db mail)) = rows db"
    "rows (snd (get_user_by_username db usern)) = rows db"
    by (simp_all add: verify_user_eq get_user_by_email_def get_user_by_username_def Let_def
        rows_init_db rows_Some)
  have update: "unique_users (rows db) \<longrightarrow>
      unique_users (rows (snd (update_user_password B salt db mail pw)))"
    by (cases "bcrypt_hash B salt pw")
      (simp_all add: update_user_password_eq rows_init_db rows_Some unique_users_def
        username_update email_update)
  have kept_create:
    "take (length (rows db)) (rows (snd (create_user B salt db usern mail pw))) = rows db"
    by (cases "bcrypt_hash B salt pw") (simp_all add: create_user_eq rows_init_db rows_Some)
  have kept_update:
    "map (\<lambda>r. (uid r, username r, email r)) (rows (snd (update_user_password B salt db mail pw)))
       = map (\<lambda>r. (uid r, username r, email r)) (rows db)"
    by (cases "bcrypt_hash B salt pw")
      (simp_all add: update_user_password_eq rows_init_db rows_Some comp_def)
  from init create reads update kept_create kept_update show ?thesis
    by simp
qed

theorem unique_users_invariant_witness:
  "unique_users (rows two_users_db) \<and>
   unique_users (rows (snd (create_user bcrypt72 ''saltsaltsaltsaltsalt03'' two_users_db
                              ''carol'' ''carol@example.com'' ''pw''))) \<and>
   unique_users (rows (snd (create_user bcrypt72 ''saltsaltsaltsaltsalt03'' two_users_db
                              ''bob'' ''carol@example.com'' ''pw''))) \<and>
   unique_users (rows (snd (update_user_password bcrypt72 ''saltsaltsaltsaltsalt03'' two_users_db
                              ''bob@example.com'' ''pw'')))"
  using unique_users_invariant [of two_users_db bcrypt72 "''saltsaltsaltsaltsalt03''" "''carol''"
      "''carol@example.com''" "''pw''"]
    unique_users_invariant [of two_users_db bcrypt72 "''saltsaltsaltsaltsalt03''" "''bob''"
      "''carol@example.com''" "''pw''"]
    unique_users_invariant [of two_users_db bcrypt72 "''saltsaltsaltsaltsalt03''" "''bob''"
      "''bob@example.com''" "''pw''"]
    two_users_unique
  by blast

subsection \<open>Reset with a mismatched confirmation\<close>

text \<open>
  C5. When \<^verbatim>\<open>new_password\<close> differs from \<^verbatim>\<open>confirm_new_password\<close>, the direct-reset
  handler answers with the mismatch error, the database is left as it was (not even
  \<^verbatim>\<open>init_db\<close> runs) and no store operation is called, whatever the identifier is.
\<close>

theorem reset_mismatch_rejected:
  "new_password \<noteq> confirm_new_password \<Longrightarrow>
     fst (reset_password_direct B salt db ident new_password confirm_new_password) =
       TemplateResponse ''forgot_password.html'' [(''error'', ''Passwords do not match.'')] 200 \<and>
     fst (snd (reset_password_direct B salt db ident new_password confirm_new_password)) = db \<and>
     snd (snd (reset_password_direct B salt db ident new_password confirm_new_password)) = []"
  by (simp add: reset_password_direct_def)

theorem reset_mismatch_rejected_witness:
  "''new-secret'' \<noteq> ''new-secert'' \<and>
   reset_password_direct bcrypt72 ''saltsaltsaltsaltsalt03'' two_users_db ''alice''
       ''new-secret'' ''new-secert''
     = (TemplateResponse ''forgot_password.html'' [(''error'', ''Passwords do not match.'')] 200,
        two_users_db, [])"
proof -
  have differ: "''new-secret'' \<noteq> ''new-secert''"
    by simp
  from reset_mismatch_rejected [OF differ, of bcrypt72 "''saltsaltsaltsaltsalt03''" two_users_db
      "''alice''"] differ
  show ?thesis
    by (simp add: prod_eq_iff)
qed

subsection \<open>Result of a password update\<close>




subsection \<open>Reset for an unknown account\<close>

text \<open>
  C7. A direct reset with matching passwords whose identifier is neither the email nor
  the username of a user answers with the account-not-found error after the two lookups;
  \<^verbatim>\<open>update_user_password\<close> is not called and the rows are unchanged.
\<close>

theorem reset_unknown_account:
  assumes "ident \<notin> email ` set (rows db)" and "ident \<notin> username ` set (rows db)"
  shows "reset_password_direct B salt db ident pw pw =
           (TemplateResponse ''forgot_password.html''
              [(''error'', ''No account found with that username or email.'')] 200,
            init_db db, [GetUserByEmail ident, GetUserByUsername ident]) \<and>
         rows (fst (snd (reset_password_direct B salt db ident pw pw))) = rows db"
proof -
  have e: "find (\<lambda>r. email r = ident) (rows db) = None"
    using assms(1) by (simp add: find_None_image)
  have u: "find (\<lambda>r. username r = ident) (rows db) = None"
    using assms(2) by (simp add: find_None_image)
  show ?thesis
    by (simp add: reset_password_direct_def get_user_by_email_eq get_user_by_username_eq
        rows_init_db init_db_idem e u)
qed

theorem reset_unknown_account_witness:
  "reset_password_direct bcrypt72 ''saltsaltsaltsaltsalt03'' two_users_db ''carol''
       ''new-secret'' ''new-secret''
     = (TemplateResponse ''forgot_password.html''
          [(''error'', ''No account found with that username or email.'')] 200,
        two_users_db, [GetUserByEmail ''carol'', GetUserByUsername ''carol''])"
proof -
  have no_email: "''carol'' \<notin> email ` set (rows two_users_db)"
    by (simp add: two_users_rows alice_row_def bob_row_def)
  have no_username: "''carol'' \<notin> username ` set (rows two_users_db)"
    by (simp add: two_users_rows alice_row_def bob_row_def)
  have same: "init_db two_users_db = two_users_db"
    by (simp add: two_users_db_eq init_db_def)
  from reset_unknown_account [OF no_email no_username, of bcrypt72 "''saltsaltsaltsaltsalt03''"
      "''new-secret''"] same
  show ?thesis
    by simp
qed

subsection \<open>Lookups\<close>

text \<open>
  C8. \<^verbatim>\<open>get_user_by_email\<close> (\<^verbatim>\<open>get_user_by_username\<close>) returns \<open>None\<close> when no user has
  that email (username); for a user \<open>r\<close> of a store with unique usernames and emails it
  returns the dictionary of the id, username and email of \<open>r\<close>. Whatever dictionary is
  returned has exactly these three keys, so no password; the rows are not changed.
\<close>

theorem get_user_lookup:
  "(mail \<notin> email ` set (rows db) \<longrightarrow> fst (get_user_by_email db mail) = None) \<and>
   (unique_users (rows db) \<and> r \<in> set (rows db) \<longrightarrow>
      fst (get_user_by_email db (email r)) =
        Some [(''id'', PyInt (uid r)), (''username'', PyStr (username r)),
              (''email'', PyStr (email r))]) \<and>
   (usern \<notin> username ` set (rows db) \<longrightarrow> fst (get_user_by_username db usern) = None) \<and>
   (unique_users (rows db) \<and> r \<in> set (rows db) \<longrightarrow>
      fst (get_user_by_username db (username r)) =
        Some [(''id'', PyInt (uid r)), (''username'', PyStr (username r)),
              (''email'', PyStr (email r))]) \<and>
   (\<forall>d. fst (get_user_by_email db mail) = Some d \<or> fst (get_user_by_username db usern) = Some d
      \<longrightarrow> map fst d = [''id'', ''username'', ''email''] \<and> map_of d ''password'' = None) \<and>
   snd (get_user_by_email db mail) = init_db db \<and>
   snd (get_user_by_username db usern) = init_db db"
proof -
  have absent_email: "mail \<notin> email ` set (rows db) \<longrightarrow> fst (get_user_by_email db mail) = None"
    by (simp add: get_user_by_email_eq find_None_image)
  have absent_username:
    "usern \<notin> username ` set (rows db) \<longrightarrow> fst (get_user_by_username db usern) = None"
    by (simp add: get_user_by_username_eq find_None_image)
  have present_email: "unique_users (rows db) \<and> r \<in> set (rows db) \<longrightarrow>
      fst (get_user_by_email db (email r)) =
        Some [(''id'', PyInt (uid r)), (''username'', PyStr (username r)),
              (''email'', PyStr (email r))]"
    by (simp add: get_user_by_email_eq unique_users_def find_distinct_key user_dict_def)
  have present_username: "unique_users (rows db) \<and> r \<in> set (rows db) \<longrightarrow>
      fst (get_user_by_username db (username r)) =
        Some [(''id'', PyInt (uid r)), (''username'', PyStr (username r)),
              (''email'', PyStr (email r))]"
    by (simp add: get_user_by_username_eq unique_users_def find_distinct_key user_dict_def)
  have keys: "\<forall>d. fst (get_user_by_email db mail) = Some d \<or>
        fst (get_user_by_username db usern) = Some d
      \<longrightarrow> map fst d = [''id'', ''username'', ''email''] \<and> map_of d ''password'' = None"
    by (auto simp: get_user_by_email_eq get_user_by_username_eq user_dict_def)
  have unchanged: "snd (get_user_by_email db mail) = init_db db"
    "snd (get_user_by_username db usern) = init_db db"
    by (simp_all add: get_user_by_email_eq get_user_by_username_eq)
  from absent_email present_email absent_username present_username keys unchanged
  show ?thesis
    by (intro conjI)
qed

theorem get_user_lookup_witness:
  "fst (get_user_by_email two_users_db ''bob@example.com'')
     = Some [(''id'', PyInt 2), (''username'', PyStr ''bob''), (''email'', PyStr ''bob@example.com'')] \<and>
   fst (get_user_by_username two_users_db ''alice'')
     = Some [(''id'', PyInt 1), (''username'', PyStr ''alice''),
             (''email'', PyStr ''alice@example.com'')] \<and>
   fst (get_user_by_email two_users_db ''bob'') = None \<and>
   fst (get_user_by_username two_users_db ''bob@example.com'') = None"
proof -
  have members: "alice_row \<in> set (rows two_users_db)" "bob_row \<in> set (rows two_users_db)"
    by (simp_all add: two_users_rows)
  have absent: "''bob'' \<notin> email ` set (rows two_users_db)"
    "''bob@example.com'' \<notin> username ` set (rows two_users_db)"
    by (simp_all add: two_users_rows alice_row_def bob_row_def)
  have alice: "uid alice_row = 1" "username alice_row = ''alice''"
    "email alice_row = ''alice@example.com''"
    by (simp_all add: alice_row_def)
  have bob: "uid bob_row = 2" "username bob_row = ''bob''" "email bob_row = ''bob@example.com''"
    by (simp_all add: bob_row_def)
  from get_user_lookup [of "''bob''" two_users_db bob_row "''bob@example.com''"]
    two_users_unique members absent
  have 1: "fst (get_user_by_email two_users_db ''bob@example.com'')
     = Some [(''id'', PyInt 2), (''username'', PyStr ''bob''), (''email'', PyStr ''bob@example.com'')]"
    and 3: "fst (get_user_by_email two_users_db ''bob'') = None"
    and 4: "fst (get_user_by_username two_users_db ''bob@example.com'') = None"
    by (simp_all add: bob)
  from get_user_lookup [of "''bob''" two_users_db alice_row "''bob@example.com''"]
    two_users_unique members
  have 2: "fst (get_user_by_username two_users_db ''alice'')
     = Some [(''id'', PyInt 1), (''username'', PyStr ''alice''),
             (''email'', PyStr ''alice@example.com'')]"
    by (simp add: alice)
  from 1 2 3 4 show ?thesis
    by (intro conjI)
qed

subsection \<open>Conversion and download\<close>

text \<open>
  C9. The convert endpoint answers \<^verbatim>\<open>completed\<close> with the identifier drawn for the
  request exactly when the converter exits with status 0 and the output file exists
  afterwards. When the converter fails, when its binary is missing, and when it exits with
  status 0 without the output file, the answer is \<^verbatim>\<open>failed\<close> with a message and status
  500. A download of an identifier whose output file does not exist answers 404.
\<close>

theorem convert_to_pdf_status:
  "(fst (convert_to_pdf run file_id content fs)
      = JSONResponse [(''status'', ''completed''), (''file_id'', file_id)] 200)
     = (fst (run (libreoffice_args file_id) (fs(input_path file_id \<mapsto> content))) = Completed \<and>
        snd (run (libreoffice_args file_id) (fs(input_path file_id \<mapsto> content)))
          (output_path file_id) \<noteq> None) \<and>
   (field (fst (convert_to_pdf run file_id content fs)) ''status'' = Some ''completed'')
     = (fst (run (libreoffice_args file_id) (fs(input_path file_id \<mapsto> content))) = Completed \<and>
        snd (run (libreoffice_args file_id) (fs(input_path file_id \<mapsto> content)))
          (output_path file_id) \<noteq> None) \<and>
   (fst (run (libreoffice_args file_id) (fs(input_path file_id \<mapsto> content))) = CalledProcessError
      \<longrightarrow> fst (convert_to_pdf run file_id content fs)
            = JSONResponse [(''status'', ''failed''), (''message'', ''PDF conversion failed.'')] 500) \<and>
   (fst (run (libreoffice_args file_id) (fs(input_path file_id \<mapsto> content))) = FileNotFoundError
      \<longrightarrow> fst (convert_to_pdf run file_id content fs)
            = JSONResponse [(''status'', ''failed''),
                            (''message'', ''Server error: PDF converter not found.'')] 500) \<and>
   (fst (run (libreoffice_args file_id) (fs(input_path file_id \<mapsto> content))) = Completed \<and>
    snd (run (libreoffice_args file_id) (fs(input_path file_id \<mapsto> content)))
      (output_path file_id) = None
      \<longrightarrow> fst (convert_to_pdf run file_id content fs)
            = JSONResponse [(''status'', ''failed''),
                            (''message'', ''PDF output file not found after conversion.'')] 500) \<and>
   (fs' (output_path file_id') = None
      \<longrightarrow> download_pdf file_id' fs' = JSONResponse [(''error'', ''File not found'')] 404 \<and>
          status_code (download_pdf file_id' fs') = 404)"
proof (cases "run (libreoffice_args file_id) (fs(input_path file_id \<mapsto> content))")
  case (Pair outcome fs2)
  have download: "fs' (output_path file_id') = None
      \<longrightarrow> download_pdf file_id' fs' = JSONResponse [(''error'', ''File not found'')] 404 \<and>
          status_code (download_pdf file_id' fs') = 404"
    by (simp add: download_pdf_def output_path_def)
  show ?thesis
  proof (cases outcome)
    case Completed
    with Pair download show ?thesis
      by (simp add: convert_to_pdf_def)
  next
    case CalledProcessError
    with Pair download show ?thesis
      by (simp add: convert_to_pdf_def)
  next
    case FileNotFoundError
    with Pair download show ?thesis
      by (simp add: convert_to_pdf_def)
  qed
qed

theorem convert_to_pdf_status_witness:
  "fst (convert_to_pdf (\<lambda>args fs. (Completed, fs(''uploads/f1.pdf'' \<mapsto> ''%PDF''))) ''f1'' ''doc'' Map.empty)
     = JSONResponse [(''status'', ''completed''), (''file_id'', ''f1'')] 200 \<and>
   fst (convert_to_pdf (\<lambda>args fs. (CalledProcessError, fs)) ''f1'' ''doc'' Map.empty)
     = JSONResponse [(''status'', ''failed''), (''message'', ''PDF conversion failed.'')] 500 \<and>
   fst (convert_to_pdf (\<lambda>args fs. (FileNotFoundError, fs)) ''f1'' ''doc'' Map.empty)
     = JSONResponse [(''status'', ''failed''),
                     (''message'', ''Server error: PDF converter not found.'')] 500 \<and>
   fst (convert_to_pdf (\<lambda>args fs. (Completed, fs)) ''f1'' ''doc'' Map.empty)
     = JSONResponse [(''status'', ''failed''),
                     (''message'', ''PDF output file not found after conversion.'')] 500 \<and>
   status_code (download_pdf ''f2'' (Map.empty(''uploads/f1.pdf'' \<mapsto> ''%PDF''))) = 404"
proof -
  have out: "output_path ''f1'' = ''uploads/f1.pdf''" "output_path ''f2'' = ''uploads/f2.pdf''"
    by (simp_all add: output_path_def os_path_join_def UPLOAD_DIR_def)
  have inp: "input_path ''f1'' = ''uploads/f1.docx''"
    by (simp add: input_path_def os_path_join_def UPLOAD_DIR_def)
  have ok: "fst (convert_to_pdf (\<lambda>args fs. (Completed, fs(''uploads/f1.pdf'' \<mapsto> ''%PDF''))) ''f1'' ''doc'' Map.empty)
     = JSONResponse [(''status'', ''completed''), (''file_id'', ''f1'')] 200"
    using convert_to_pdf_status [of "\<lambda>args fs. (Completed, fs(''uploads/f1.pdf'' \<mapsto> ''%PDF''))"
        "''f1''" "''doc''" Map.empty]
    by (simp add: out)
  have failed: "fst (convert_to_pdf (\<lambda>args fs. (CalledProcessError, fs)) ''f1'' ''doc'' Map.empty)
     = JSONResponse [(''status'', ''failed''), (''message'', ''PDF conversion failed.'')] 500"
    using convert_to_pdf_status [of "\<lambda>args fs. (CalledProcessError, fs)" "''f1''" "''doc''" Map.empty]
    by simp
  have missing: "fst (convert_to_pdf (\<lambda>args fs. (FileNotFoundError, fs)) ''f1'' ''doc'' Map.empty)
     = JSONResponse [(''status'', ''failed''),
                     (''message'', ''Server error: PDF converter not found.'')] 500"
    using convert_to_pdf_status [of "\<lambda>args fs. (FileNotFoundError, fs)" "''f1''" "''doc''" Map.empty]
    by simp
  have no_output: "fst (convert_to_pdf (\<lambda>args fs. (Completed, fs)) ''f1'' ''doc'' Map.empty)
     = JSONResponse [(''status'', ''failed''),
                     (''message'', ''PDF output file not found after conversion.'')] 500"
    using convert_to_pdf_status [of "\<lambda>args fs. (Completed, fs)" "''f1''" "''doc''" Map.empty]
    by (simp add: out inp)
  have download: "status_code (download_pdf ''f2'' (Map.empty(''uploads/f1.pdf'' \<mapsto> ''%PDF''))) = 404"
    using convert_to_pdf_status [of "\<lambda>args fs. (Completed, fs)" "''f1''" "''doc''" Map.empty
        "Map.empty(''uploads/f1.pdf'' \<mapsto> ''%PDF'')" "''f2''"]
    by (simp add: out)
  from ok failed missing no_output download show ?thesis
    by (intro conjI)
qed

subsection \<open>Email before username\<close>




end
